theory Spec2Isabelle
  imports Complex_Main "HOL-Library.Word"
begin

section \<open>The zk-backend server (zk-backend/index.js)\<close>

subsection \<open>JavaScript values\<close>

text \<open>
  The values \<open>express.json()\<close> and \<open>JSON.parse\<close> hand to the program. A number is
  kept as a rational: a parsed JSON number is never NaN, and it is falsy exactly when it
  is zero. An object is the association list of its own properties; where a key occurs
  twice, the first binding is the property.
\<close>

datatype jsval =
    JUndefined
  | JNull
  | JBool bool
  | JNum rat
  | JStr string
  | JArr "jsval list"
  | JObj "(string \<times> jsval) list"

text \<open>JavaScript's ToBoolean, as \<open>!x\<close> uses it.\<close>

fun truthy :: "jsval \<Rightarrow> bool" where
  "truthy JUndefined = False"
| "truthy JNull = False"
| "truthy (JBool b) = b"
| "truthy (JNum n) = (n \<noteq> 0)"
| "truthy (JStr s) = (s \<noteq> [])"
| "truthy (JArr xs) = True"
| "truthy (JObj kvs) = True"

text \<open>
  Reading the property \<open>k\<close> of a value that is neither \<open>undefined\<close> nor \<open>null\<close>,
  for the names the program reads (\<open>proof\<close>, \<open>publicInputs\<close>, \<open>vk\<close>, \<open>bytecode\<close>,
  \<open>message\<close>): none of them is a property of a string, a number, a boolean or an
  array, nor one that a plain object inherits.
\<close>

fun get_prop :: "jsval \<Rightarrow> string \<Rightarrow> jsval" where
  "get_prop (JObj kvs) k = (case map_of kvs k of Some v \<Rightarrow> v | None \<Rightarrow> JUndefined)"
| "get_prop v k = JUndefined"

subsection \<open>Effects: outcomes, events and computations\<close>

text \<open>
  An Error object, as far as the program reads it: its \<open>message\<close>.
\<close>

definition js_error :: "string \<Rightarrow> jsval" where
  "js_error m = JObj [(''message'', JStr m)]"

text \<open>
  What a call or an \<open>await\<close> comes to: a value, a thrown value (an Error as
  \<open>js_error\<close> gives it, or whatever else a library throws), or a promise that never
  settles.
\<close>

datatype 'a outcome = Returns 'a | Throws jsval | Pending

type_synonym bytes = "8 word list"

text \<open>
  The observable steps of a request, in order. \<open>EConsole\<close> stands for a call of
  \<open>console.log\<close>, \<open>console.error\<close> or \<open>console.table\<close> and carries the text that
  labels it (without its emoji), not the values printed with it. \<open>EVerifyProof\<close>
  carries the argument of \<open>backend.verifyProof\<close> and what the call came to.
\<close>

datatype event =
    EConsole string
  | EReadFile string
  | ENewBackend jsval
  | EVerifyProof jsval "jsval outcome"
  | EConvertProof bytes nat
  | EConvertVk bytes
  | ESessionStart jsval
  | EExecute jsval
  | EAwaitFinalized

type_synonym 'a comp = "event list \<times> 'a outcome"

definition ret :: "'a \<Rightarrow> 'a comp" where
  "ret x = ([], Returns x)"

definition call :: "event \<Rightarrow> 'a outcome \<Rightarrow> 'a comp" where
  "call e r = ([e], r)"

definition console :: "string \<Rightarrow> unit comp" where
  "console s = ([EConsole s], Returns ())"

text \<open>Sequencing: a throw or a pending promise ends the statements that follow.\<close>

fun bind :: "'a comp \<Rightarrow> ('a \<Rightarrow> 'b comp) \<Rightarrow> 'b comp" where
  "bind (t, Returns x) f = (t @ fst (f x), snd (f x))"
| "bind (t, Throws m) f = (t, Throws m)"
| "bind (t, Pending) f = (t, Pending)"

text \<open>\<open>try { ... } catch (err) { ... }\<close>: the handler gets the thrown value.\<close>

fun try_catch :: "'a comp \<Rightarrow> (jsval \<Rightarrow> 'a comp) \<Rightarrow> 'a comp" where
  "try_catch (t, Throws err) h = (t @ fst (h err), snd (h err))"
| "try_catch (t, r) h = (t, r)"

subsection \<open>The environment of the server\<close>

text \<open>
  Everything the file imports or reads from the process: \<open>fs\<close>, \<open>path\<close>,
  \<open>JSON.parse\<close>, the \<open>Uint8Array\<close> built from \<open>Object.values\<close>, \<open>@aztec/bb.js\<close>,
  the package \<open>olivmath_ultraplonk_zk_verify\<close> and \<open>zkverifyjs\<close>. A request calls each
  with a given argument at most once, so each is a function of its arguments.
  \<open>uint8_values v\<close> is \<open>new Uint8Array(Object.values(v))\<close>, which throws a TypeError
  where an element has no primitive value. \<open>'b\<close> is the backend object, \<open>'s\<close> the
  zkVerify session, \<open>'e\<close> the event emitter of a submission.
\<close>

record ('b, 's, 'e) env =
  dirname :: string
  SEED :: jsval
  typeerror_message :: "jsval \<Rightarrow> string"
  path_join :: "string \<Rightarrow> string \<Rightarrow> string"
  readFileSync :: "string \<Rightarrow> string outcome"
  JSON_parse :: "string \<Rightarrow> jsval outcome"
  uint8_values :: "jsval \<Rightarrow> bytes outcome"
  new_UltraPlonkBackend :: "jsval \<Rightarrow> 'b outcome"
  verifyProof :: "'b \<Rightarrow> jsval \<Rightarrow> jsval outcome"
  convert_proof :: "bytes \<Rightarrow> nat \<Rightarrow> jsval outcome"
  convert_verification_key :: "bytes \<Rightarrow> jsval outcome"
  session_start :: "jsval \<Rightarrow> 's outcome"
  execute :: "'s \<Rightarrow> jsval \<Rightarrow> 'e outcome"
  on_finalized :: "'e \<Rightarrow> jsval outcome"

text \<open>
  Reading a property of \<open>undefined\<close> or \<open>null\<close> (also by destructuring) throws a
  TypeError, whose message is the engine's.
\<close>

definition member :: "('b, 's, 'e) env \<Rightarrow> jsval \<Rightarrow> string \<Rightarrow> jsval outcome" where
  "member E v k =
     (if v = JUndefined \<or> v = JNull then Throws (js_error (typeerror_message E v))
      else Returns (get_prop v k))"

record response =
  status :: nat
  json :: jsval

subsection \<open>convertProofAndVkToHex (lines 54-65)\<close>

definition convertProofAndVkToHex ::
  "('b, 's, 'e) env \<Rightarrow> bytes \<Rightarrow> bytes \<Rightarrow> (jsval \<times> jsval) comp" where
  "convertProofAndVkToHex E proof vk =
     bind (call (EConvertProof proof 1) (convert_proof E proof 1)) (\<lambda>convertedProof.
     bind (call (EConvertVk vk) (convert_verification_key E vk)) (\<lambda>convertedVk.
     ret (convertedProof, convertedVk)))"

subsection \<open>submitProofToZkVerify (lines 131-151)\<close>

text \<open>
  The promise awaited last resolves when the \<open>Finalized\<close> event arrives and never
  rejects by itself: \<open>on_finalized\<close> is \<open>Pending\<close> when the event never comes.
\<close>

definition submitProofToZkVerify ::
  "('b, 's, 'e) env \<Rightarrow> jsval \<Rightarrow> jsval \<Rightarrow> jsval \<Rightarrow> jsval comp" where
  "submitProofToZkVerify E proofHex publicInputs vkHex =
     bind (call (ESessionStart (SEED E)) (session_start E (SEED E))) (\<lambda>session.
     bind (console ''table'') (\<lambda>_.
     (let proofData = JObj [(''proofData'',
            JObj [(''proof'', proofHex), (''vk'', vkHex), (''publicSignals'', publicInputs)])]
      in
     bind (call (EExecute proofData) (execute E session proofData)) (\<lambda>events.
     bind (call EAwaitFinalized (on_finalized E events)) (\<lambda>data.
     bind (console ''Proof finalized on zkVerify.'') (\<lambda>_.
     ret (JObj [(''status'', JStr ''ok''), (''txId'', JStr ''0x123abc'')])))))))"

subsection \<open>The POST handler (lines 67-122)\<close>

definition missing_fields :: response where
  "missing_fields =
     \<lparr>status = 400,
      json = JObj [(''error'', JStr ''Missing required fields: proof, publicInputs, vk'')]\<rparr>"

definition verification_failed :: response where
  "verification_failed =
     \<lparr>status = 400, json = JObj [(''error'', JStr ''Proof verification failed'')]\<rparr>"

definition submitted :: "jsval \<Rightarrow> response" where
  "submitted r =
     \<lparr>status = 200,
      json = JObj [(''message'', JStr ''Proof submitted successfully''), (''response'', r)]\<rparr>"

text \<open>
  The 500 answer, \<open>{error: ..., details: err.message}\<close>: \<open>res.json\<close> leaves out a key
  whose value is \<open>undefined\<close>.
\<close>

definition failed_to_submit :: "jsval \<Rightarrow> response" where
  "failed_to_submit message =
     \<lparr>status = 500,
      json = JObj ((''error'', JStr ''Failed to submit proof'') #
                   (if message = JUndefined then [] else [(''details'', message)]))\<rparr>"

text \<open>The statements after the check of the three fields, up to the response.\<close>

definition verify_and_submit ::
  "('b, 's, 'e) env \<Rightarrow> jsval \<Rightarrow> jsval \<Rightarrow> jsval \<Rightarrow> response comp" where
  "verify_and_submit E proof publicInputs vk =
     (let circuitPath = path_join E (dirname E) ''../public/circuit.json'';
          arg = JObj [(''proof'', proof), (''publicInputs'', JArr [publicInputs])]
      in
        bind ([], uint8_values E proof) (\<lambda>proofUint8Array.
        bind ([], uint8_values E vk) (\<lambda>vkUint8Array.
        bind (console ''proofArray'') (\<lambda>_.
        bind (console ''vkArray'') (\<lambda>_.
        bind (console ''publicInputs'') (\<lambda>_.
        bind (call (EReadFile circuitPath) (readFileSync E circuitPath)) (\<lambda>content.
        bind ([], JSON_parse E content) (\<lambda>circuit.
        bind ([], member E circuit ''bytecode'') (\<lambda>bytecode.
        bind (call (ENewBackend bytecode) (new_UltraPlonkBackend E bytecode)) (\<lambda>backend.
        bind (console ''Verifying proof...'') (\<lambda>_.
        bind (call (EVerifyProof arg (verifyProof E backend arg)) (verifyProof E backend arg))
          (\<lambda>result.
        bind (console ''Verification result: '') (\<lambda>_.
        if result = JBool False then ret verification_failed
        else
          bind (convertProofAndVkToHex E proofUint8Array vkUint8Array) (\<lambda>(proofHex, vkHex).
          bind (submitProofToZkVerify E proofHex publicInputs vkHex) (\<lambda>response.
          ret (submitted response))))))))))))))))"

text \<open>
  The handler. The first statement of the \<open>catch\<close> block reads \<open>err.message\<close>, which
  throws again when the thrown value is \<open>undefined\<close> or \<open>null\<close>: then the outcome is
  \<open>Throws\<close>, the promise of the handler is rejected and this code sends no answer.
\<close>

definition post_handler :: "('b, 's, 'e) env \<Rightarrow> jsval \<Rightarrow> response comp" where
  "post_handler E body =
     try_catch
       (bind (console ''Received request to submit proof...'') (\<lambda>_.
        bind ([], member E body ''proof'') (\<lambda>proof.
        (let publicInputs = get_prop body ''publicInputs''; vk = get_prop body ''vk'' in
         if \<not> truthy proof \<or> \<not> truthy publicInputs \<or> \<not> truthy vk
         then ret missing_fields
         else verify_and_submit E proof publicInputs vk))))
       (\<lambda>err.
        bind ([], member E err ''message'') (\<lambda>message.
        bind (console ''Error submitting proof: '') (\<lambda>_.
        bind (console ''err'') (\<lambda>_.
        ret (failed_to_submit message)))))"

text \<open>The steps that convert a proof or a key, or submit to zkVerify.\<close>

definition submission_event :: "event \<Rightarrow> bool" where
  "submission_event e =
     (case e of
        EConvertProof b n \<Rightarrow> True
      | EConvertVk b \<Rightarrow> True
      | ESessionStart s \<Rightarrow> True
      | EExecute a \<Rightarrow> True
      | EAwaitFinalized \<Rightarrow> True
      | _ \<Rightarrow> False)"

text \<open>The public-input count of a \<open>convert_proof\<close> call is 1.\<close>

definition count_is_one :: "event \<Rightarrow> bool" where
  "count_is_one e = (case e of EConvertProof b n \<Rightarrow> n = 1 | _ \<Rightarrow> True)"

text \<open>
  A sample environment: the circuit file is there and parses, the backend is built, the
  local verification resolves to \<open>verdict\<close>, the conversions and the submission succeed.
\<close>

definition sample_env :: "jsval \<Rightarrow> (unit, unit, unit) env" where
  "sample_env verdict =
     \<lparr>dirname = ''/srv/zk-backend'',
      SEED = JStr ''seed'',
      typeerror_message = (\<lambda>v. ''Cannot destructure''),
      path_join = (\<lambda>a b. a @ ''/'' @ b),
      readFileSync = (\<lambda>p. Returns ''circuit''),
      JSON_parse = (\<lambda>s. Returns (JObj [(''bytecode'', JStr ''H4sI'')])),
      uint8_values = (\<lambda>v. Returns (case v of JObj kvs \<Rightarrow> map (\<lambda>kv. 7) kvs | _ \<Rightarrow> [])),
      new_UltraPlonkBackend = (\<lambda>b. Returns ()),
      verifyProof = (\<lambda>b a. Returns verdict),
      convert_proof = (\<lambda>b n. Returns (JStr ''proofhex'')),
      convert_verification_key = (\<lambda>b. Returns (JStr ''vkhex'')),
      session_start = (\<lambda>s. Returns ()),
      execute = (\<lambda>s a. Returns ()),
      on_finalized = (\<lambda>e. Returns JNull)\<rparr>"

definition sample_body :: "jsval \<Rightarrow> jsval" where
  "sample_body publicInputs =
     JObj [(''proof'', JObj [(''0'', JNum 21), (''1'', JNum 210)]),
           (''publicInputs'', publicInputs),
           (''vk'', JObj [(''0'', JNum 0)])]"

section \<open>The hex codec of the crate (utils::to_hex, utils::from_hex)\<close>

text \<open>
  The crate \<open>ultraplonk_no_std\<close> is documented in the API reference, which gives the
  signatures of \<open>utils::to_hex\<close> and \<open>utils::from_hex\<close> and one example of each;
  their bodies are not in the repository files at hand. The definitions below follow
  the specification's text boundary: an optional \<open>0x\<close> prefix, digits of either case,
  an even digit count.
\<close>

datatype fmt_error = FmtError

definition hex_digit :: "nat \<Rightarrow> char" where
  "hex_digit n = ''0123456789abcdef'' ! (n mod 16)"

text \<open>
  Modelled from the spec: the body of \<open>utils::to_hex\<close>. Two lower-case digits a byte
  and no prefix, as in the reference's example (the bytes 15, d2, c8 give \<open>15d2c8\<close>).
\<close>

definition to_hex :: "bytes \<Rightarrow> string" where
  "to_hex bs = concat (map (\<lambda>b. [hex_digit (unat b div 16), hex_digit (unat b mod 16)]) bs)"

text \<open>
  Modelled from the spec: the value of a hex digit, of either case, as \<open>from_hex\<close>
  reads it; \<open>None\<close> for any other character.
\<close>

definition digit_value :: "char \<Rightarrow> nat option" where
  "digit_value c =
     (let n = (of_char c :: nat) in
      if 48 \<le> n \<and> n \<le> 57 then Some (n - 48)
      else if 97 \<le> n \<and> n \<le> 102 then Some (n - 87)
      else if 65 \<le> n \<and> n \<le> 70 then Some (n - 55)
      else None)"

text \<open>
  Modelled from the spec: the body of \<open>utils::from_hex\<close>, in three parts. The digits
  are read two a byte; an odd count or a character that is no hex digit is the error of
  \<open>Result<Vec<u8>, std::fmt::Error>\<close>.
\<close>

fun decode_pairs :: "string \<Rightarrow> fmt_error + bytes" where
  "decode_pairs [] = Inr []"
| "decode_pairs [c] = Inl FmtError"
| "decode_pairs (h # l # rest) =
     (case (digit_value h, digit_value l) of
        (Some a, Some b) \<Rightarrow>
          (case decode_pairs rest of
             Inr bs \<Rightarrow> Inr (of_nat (16 * a + b) # bs)
           | Inl e \<Rightarrow> Inl e)
      | _ \<Rightarrow> Inl FmtError)"

text \<open>Modelled from the spec: the optional prefix \<open>0x\<close> is dropped.\<close>

definition strip_0x :: "string \<Rightarrow> string" where
  "strip_0x s = (if take 2 s = ''0x'' then drop 2 s else s)"

text \<open>Modelled from the spec: \<open>utils::from_hex\<close>, the prefix dropped and the digits read.\<close>

definition from_hex :: "string \<Rightarrow> fmt_error + bytes" where
  "from_hex s = decode_pairs (strip_0x s)"

text \<open>The lower-case form of a character: only the letters A to Z change.\<close>

definition lower_char :: "char \<Rightarrow> char" where
  "lower_char c =
     (let n = (of_char c :: nat) in if 65 \<le> n \<and> n \<le> 90 then char_of (n + 32) else c)"

section \<open>The public-input evaluator\<close>

text \<open>
  The verifier's code is not in the repository files at hand; the evaluator is the
  component of section 4.3 of the specification. \<open>FIELD_MODULUS\<close> is the constant of
  the API reference.
\<close>

definition FIELD_MODULUS :: nat where
  "FIELD_MODULUS =
     21888242871839275222246405745257275088548364400416034343698204186575808495617"

definition fadd :: "nat \<Rightarrow> nat \<Rightarrow> nat" where
  "fadd a b = (a + b) mod FIELD_MODULUS"

definition fsub :: "nat \<Rightarrow> nat \<Rightarrow> nat" where
  "fsub a b = (a mod FIELD_MODULUS + (FIELD_MODULUS - b mod FIELD_MODULUS)) mod FIELD_MODULUS"

definition fmul :: "nat \<Rightarrow> nat \<Rightarrow> nat" where
  "fmul a b = (a * b) mod FIELD_MODULUS"

definition fpow :: "nat \<Rightarrow> nat \<Rightarrow> nat" where
  "fpow a k = (a ^ k) mod FIELD_MODULUS"

text \<open>The inverse, by Fermat's little theorem.\<close>

definition finv :: "nat \<Rightarrow> nat" where
  "finv a = fpow a (FIELD_MODULUS - 2)"

text \<open>
  Modelled from the spec: the Lagrange basis of the subgroup of order \<open>n\<close> generated by
  \<open>\<omega>\<close>, in barycentric form:
  \<open>L\<^sub>i(\<zeta>) = \<omega>\<^sup>i (\<zeta>\<^sup>n - 1) / (n (\<zeta> - \<omega>\<^sup>i))\<close>,
  and 1 at \<open>\<zeta> = \<omega>\<^sup>i\<close>, where the quotient has no value and the basis
  polynomial takes the value 1.
\<close>

definition lagrange :: "nat \<Rightarrow> nat \<Rightarrow> nat \<Rightarrow> nat \<Rightarrow> nat" where
  "lagrange n \<omega> \<zeta> i =
     (if fsub \<zeta> (fpow \<omega> i) = 0 then 1
      else fmul (fmul (fpow \<omega> i) (fsub (fpow \<zeta> n) 1))
                (finv (fmul n (fsub \<zeta> (fpow \<omega> i)))))"

text \<open>
  Modelled from the spec: the public-input evaluator. It evaluates at the challenge
  \<open>\<zeta>\<close> the polynomial of degree below \<open>n\<close> that takes the value \<open>input\<^sub>i\<close> at
  \<open>\<omega>\<^sup>i\<close> (and 0 at the other points of the subgroup), as the sum of
  \<open>input\<^sub>i L\<^sub>i(\<zeta>)\<close>, every operation in the scalar field.
\<close>

fun pi_sum :: "nat \<Rightarrow> nat \<Rightarrow> nat \<Rightarrow> nat \<Rightarrow> nat list \<Rightarrow> nat" where
  "pi_sum n \<omega> \<zeta> i [] = 0"
| "pi_sum n \<omega> \<zeta> i (x # xs) =
     fadd (fmul x (lagrange n \<omega> \<zeta> i)) (pi_sum n \<omega> \<zeta> (Suc i) xs)"

definition public_input_eval :: "nat \<Rightarrow> nat \<Rightarrow> nat \<Rightarrow> nat list \<Rightarrow> nat" where
  "public_input_eval n \<omega> \<zeta> inputs = pi_sum n \<omega> \<zeta> 0 inputs"

section \<open>Properties of the server\<close>

subsection \<open>Sequencing and traces\<close>

lemma bind_unfold:
  "bind m f =
     (case snd m of
        Returns x \<Rightarrow> (fst m @ fst (f x), snd (f x))
      | Throws e \<Rightarrow> (fst m, Throws e)
      | Pending \<Rightarrow> (fst m, Pending))"
  by (cases m; cases "snd m") auto

lemma try_catch_unfold:
  "try_catch m h = (case snd m of Throws e \<Rightarrow> (fst m @ fst (h e), snd (h e)) | _ \<Rightarrow> m)"
  by (cases m; cases "snd m") auto

text \<open>A property of every event of \<open>m\<close> and of what follows it holds of the sequence.\<close>

lemma bind_events:
  assumes "\<forall>e\<in>set (fst m). P e"
    and "\<And>x. snd m = Returns x \<Longrightarrow> \<forall>e\<in>set (fst (f x)). P e"
  shows "\<forall>e\<in>set (fst (bind m f)). P e"
  using assms by (auto simp: bind_unfold split: outcome.splits)

text \<open>The \<open>catch\<close> block, by the thrown value.\<close>

lemma catch_block:
  "bind ([], member E err ''message'') (\<lambda>message.
     bind (console ''Error submitting proof: '') (\<lambda>_.
     bind (console ''err'') (\<lambda>_.
     ret (failed_to_submit message)))) =
   (if err = JUndefined \<or> err = JNull
    then ([], Throws (js_error (typeerror_message E err)))
    else ([EConsole ''Error submitting proof: '', EConsole ''err''],
          Returns (failed_to_submit (get_prop err ''message''))))"
  by (simp add: member_def console_def ret_def)

text \<open>The handler by cases: no body, a missing field, or the main path under the catch.\<close>

lemma post_handler_trace:
  "fst (post_handler E body) =
     (if body = JUndefined \<or> body = JNull
      then [EConsole ''Received request to submit proof...'',
            EConsole ''Error submitting proof: '', EConsole ''err'']
      else if \<not> truthy (get_prop body ''proof'') \<or> \<not> truthy (get_prop body ''publicInputs'')
              \<or> \<not> truthy (get_prop body ''vk'')
      then [EConsole ''Received request to submit proof...'']
      else EConsole ''Received request to submit proof...'' #
           fst (verify_and_submit E (get_prop body ''proof'') (get_prop body ''publicInputs'')
                  (get_prop body ''vk'')) @
           (case snd (verify_and_submit E (get_prop body ''proof'')
                        (get_prop body ''publicInputs'') (get_prop body ''vk'')) of
              Throws err \<Rightarrow>
                if err = JUndefined \<or> err = JNull then []
                else [EConsole ''Error submitting proof: '', EConsole ''err'']
            | _ \<Rightarrow> []))"
  by (simp add: post_handler_def catch_block)
     (simp add: member_def console_def ret_def Let_def bind_unfold try_catch_unfold js_error_def
      split: outcome.splits)

lemma post_handler_outcome:
  "snd (post_handler E body) =
     (if body = JUndefined \<or> body = JNull
      then Returns (failed_to_submit (JStr (typeerror_message E body)))
      else if \<not> truthy (get_prop body ''proof'') \<or> \<not> truthy (get_prop body ''publicInputs'')
              \<or> \<not> truthy (get_prop body ''vk'')
      then Returns missing_fields
      else (case snd (verify_and_submit E (get_prop body ''proof'')
                        (get_prop body ''publicInputs'') (get_prop body ''vk'')) of
              Throws err \<Rightarrow>
                if err = JUndefined \<or> err = JNull
                then Throws (js_error (typeerror_message E err))
                else Returns (failed_to_submit (get_prop err ''message''))
            | r \<Rightarrow> r))"
  by (simp add: post_handler_def catch_block)
     (simp add: member_def console_def ret_def Let_def bind_unfold try_catch_unfold js_error_def
      split: outcome.splits)

subsection \<open>A missing field\<close>




subsection \<open>A proof that fails the local verification\<close>

lemma convert_no_verify:
  "EVerifyProof a r \<notin> set (fst (convertProofAndVkToHex E p v))"
  by (simp add: convertProofAndVkToHex_def bind_unfold call_def ret_def split: outcome.splits)

lemma submit_no_verify:
  "EVerifyProof a r \<notin> set (fst (submitProofToZkVerify E p i v))"
  by (simp add: submitProofToZkVerify_def bind_unfold call_def ret_def console_def Let_def
      split: outcome.splits)

lemma verify_and_submit_failed:
  assumes A: "EVerifyProof arg (Returns (JBool False)) \<in> set (fst (verify_and_submit E p i v))"
  shows "snd (verify_and_submit E p i v) = Returns verification_failed \<and>
         (\<forall>e \<in> set (fst (verify_and_submit E p i v)). \<not> submission_event e)"
proof -
  note defs = verify_and_submit_def Let_def console_def call_def ret_def member_def
    submission_event_def
  let ?path = "path_join E (dirname E) ''../public/circuit.json''"
  let ?arg = "JObj [(''proof'', p), (''publicInputs'', JArr [i])]"
  obtain pa where up: "uint8_values E p = Returns pa"
    using A by (cases "uint8_values E p") (simp_all add: defs)
  obtain va where uv: "uint8_values E v = Returns va"
    using A up by (cases "uint8_values E v") (simp_all add: defs)
  obtain content where rd: "readFileSync E ?path = Returns content"
    using A up uv by (cases "readFileSync E ?path") (simp_all add: defs)
  obtain circuit where ps: "JSON_parse E content = Returns circuit"
    using A up uv rd by (cases "JSON_parse E content") (simp_all add: defs)
  have nn: "circuit \<noteq> JUndefined \<and> circuit \<noteq> JNull"
    using A up uv rd ps by (auto simp: defs)
  obtain backend where nb:
    "new_UltraPlonkBackend E (get_prop circuit ''bytecode'') = Returns backend"
    using A up uv rd ps nn
    by (cases "new_UltraPlonkBackend E (get_prop circuit ''bytecode'')") (simp_all add: defs)
  obtain result where vp: "verifyProof E backend ?arg = Returns result"
    using A up uv rd ps nn nb by (cases "verifyProof E backend ?arg") (simp_all add: defs)
  have "result = JBool False"
  proof (rule ccontr)
    assume "result \<noteq> JBool False"
    then show False
      using A up uv rd ps nn nb vp
      by (simp add: defs bind_unfold convert_no_verify submit_no_verify
          split: outcome.splits prod.splits)
  qed
  then show ?thesis
    using up uv rd ps nn nb vp by (simp add: defs)
qed

text \<open>
  Claim C8. For every request whose local verification (\<open>backend.verifyProof\<close>)
  returns \<open>false\<close>, the POST handler answers with status 400 ("Proof verification
  failed"), and no step of the request converts the proof or the key or reaches
  \<open>submitProofToZkVerify\<close>.
\<close>

theorem failed_verification_never_submitted:
  assumes "EVerifyProof arg (Returns (JBool False)) \<in> set (fst (post_handler E body))"
  shows "snd (post_handler E body) =
           Returns \<lparr>status = 400, json = JObj [(''error'', JStr ''Proof verification failed'')]\<rparr>
         \<and> (\<forall>e \<in> set (fst (post_handler E body)). \<not> submission_event e)"
proof -
  let ?vs = "verify_and_submit E (get_prop body ''proof'') (get_prop body ''publicInputs'')
               (get_prop body ''vk'')"
  have ok: "\<not> (body = JUndefined \<or> body = JNull)"
    "\<not> (\<not> truthy (get_prop body ''proof'') \<or> \<not> truthy (get_prop body ''publicInputs'')
          \<or> \<not> truthy (get_prop body ''vk''))"
    using assms by (auto simp: post_handler_trace split: if_splits)
  have "EVerifyProof arg (Returns (JBool False)) \<in> set (fst ?vs)"
    using assms ok by (auto simp: post_handler_trace split: outcome.splits if_splits)
  from verify_and_submit_failed[OF this] show ?thesis
    using ok
    by (simp add: post_handler_trace post_handler_outcome submission_event_def
        verification_failed_def)
qed

theorem failed_verification_never_submitted_witness:
  "EVerifyProof
     (JObj [(''proof'', JObj [(''0'', JNum 21), (''1'', JNum 210)]),
            (''publicInputs'', JArr [JStr ''0x0a''])])
     (Returns (JBool False))
     \<in> set (fst (post_handler (sample_env (JBool False)) (sample_body (JStr ''0x0a''))))
   \<and> snd (post_handler (sample_env (JBool False)) (sample_body (JStr ''0x0a''))) =
       Returns \<lparr>status = 400, json = JObj [(''error'', JStr ''Proof verification failed'')]\<rparr>
   \<and> filter submission_event
        (fst (post_handler (sample_env (JBool False)) (sample_body (JStr ''0x0a'')))) = []"
proof -
  have h: "EVerifyProof
     (JObj [(''proof'', JObj [(''0'', JNum 21), (''1'', JNum 210)]),
            (''publicInputs'', JArr [JStr ''0x0a''])])
     (Returns (JBool False))
     \<in> set (fst (post_handler (sample_env (JBool False)) (sample_body (JStr ''0x0a''))))"
    by (simp add: post_handler_def verify_and_submit_def sample_env_def sample_body_def
        member_def console_def call_def ret_def Let_def)
  from failed_verification_never_submitted [OF h] h show ?thesis
    by (simp add: filter_empty_conv)
qed

subsection \<open>The public-input count handed to convert_proof\<close>

lemma count_is_one_simps:
  "count_is_one (EConsole s)" "count_is_one (EReadFile f)" "count_is_one (ENewBackend c)"
  "count_is_one (EVerifyProof a r)" "count_is_one (EConvertProof b n) = (n = 1)"
  "count_is_one (EConvertVk b)" "count_is_one (ESessionStart sd)" "count_is_one (EExecute a)"
  "count_is_one EAwaitFinalized"
  by (simp_all add: count_is_one_def)

lemma convert_count: "\<forall>e\<in>set (fst (convertProofAndVkToHex E p v)). count_is_one e"
  unfolding convertProofAndVkToHex_def
  by (intro bind_events) (simp_all add: call_def ret_def count_is_one_simps)

lemma submit_count: "\<forall>e\<in>set (fst (submitProofToZkVerify E p i v)). count_is_one e"
  unfolding submitProofToZkVerify_def Let_def
  by (intro bind_events) (simp_all add: call_def ret_def console_def count_is_one_simps)

lemma submit_then_count:
  "\<forall>e\<in>set (fst (bind (submitProofToZkVerify E ph i vh) (\<lambda>response.
          ret (submitted response)))). count_is_one e"
  by (intro bind_events submit_count) (simp add: ret_def)

lemma verify_and_submit_count:
  "\<forall>e\<in>set (fst (verify_and_submit E p i v)). count_is_one e"
proof -
  have tail: "\<forall>e\<in>set (fst (bind (convertProofAndVkToHex E a b) (\<lambda>(proofHex, vkHex).
          bind (submitProofToZkVerify E proofHex i vkHex) (\<lambda>response.
          ret (submitted response))))). count_is_one e" for a b
    by (intro bind_events convert_count) (simp add: submit_then_count split: prod.splits)
  show ?thesis
    unfolding verify_and_submit_def Let_def
    by (intro bind_events)
       (simp_all add: call_def ret_def console_def count_is_one_simps tail)
qed

text \<open>
  Claim C10. Whatever proof and key it is given, \<open>convertProofAndVkToHex\<close> starts by
  calling \<open>convert_proof\<close> with the public-input count 1; and in the POST handler, for
  every request body (whatever its \<open>publicInputs\<close> holds, an array of any length
  included), every call of \<open>convert_proof\<close> has the count 1.
\<close>

theorem convert_proof_count_is_one:
  "(\<exists>rest. fst (convertProofAndVkToHex E p v) = EConvertProof p 1 # rest) \<and>
   (\<forall>b n. EConvertProof b n \<in> set (fst (post_handler E body)) \<longrightarrow> n = 1)"
proof -
  have "\<exists>rest. fst (convertProofAndVkToHex E p v) = EConvertProof p 1 # rest"
    by (simp add: convertProofAndVkToHex_def call_def bind_unfold split: outcome.splits)
  moreover have "\<forall>e\<in>set (fst (post_handler E body)). count_is_one e"
    using verify_and_submit_count[of E]
    by (auto simp: post_handler_trace count_is_one_simps split: outcome.splits)
  then have "\<forall>b n. EConvertProof b n \<in> set (fst (post_handler E body)) \<longrightarrow> n = 1"
    using count_is_one_simps(5) by blast
  ultimately show ?thesis by simp
qed

theorem convert_proof_count_is_one_witness:
  "fst (convertProofAndVkToHex (sample_env (JBool True)) [7, 7] [7]) =
     [EConvertProof [7, 7] 1, EConvertVk [7]] \<and>
   EConvertProof [7, 7] 1 \<in> set (fst (post_handler (sample_env (JBool True))
      (sample_body (JArr [JStr ''0x0a'', JStr ''0x0b'']))))"
  using convert_proof_count_is_one [of "sample_env (JBool True)" "[7, 7]" "[7]"
      "sample_body (JArr [JStr ''0x0a'', JStr ''0x0b''])"]
  by (simp add: post_handler_def verify_and_submit_def convertProofAndVkToHex_def
      submitProofToZkVerify_def sample_env_def sample_body_def member_def console_def
      call_def ret_def Let_def)

section \<open>Properties of the hex codec\<close>

lemma of_char_hex_digit_all:
  "\<forall>n\<in>set [0..<16]. (of_char (hex_digit n) :: nat) = (if n < 10 then 48 + n else 87 + n)"
  by code_simp

lemma of_char_hex_digit:
  "n < 16 \<Longrightarrow> (of_char (hex_digit n) :: nat) = (if n < 10 then 48 + n else 87 + n)"
  using of_char_hex_digit_all by simp

lemma digit_value_hex_digit: "n < 16 \<Longrightarrow> digit_value (hex_digit n) = Some n"
  by (simp add: digit_value_def of_char_hex_digit Let_def)

lemma byte_split: "of_nat (16 * (unat b div 16) + unat b mod 16) = (b :: 8 word)"
  by (simp add: mult.commute)

lemma unat_byte_div: "unat (b :: 8 word) div 16 < 16"
proof -
  have "unat b < 2 ^ 8" using unsigned_less[of b] by simp
  then show ?thesis by simp
qed

lemma length_to_hex: "length (to_hex bs) = 2 * length bs"
  by (induction bs) (simp_all add: to_hex_def)

text \<open>A character whose lower-case form is a digit of \<open>to_hex\<close> has that digit's value.\<close>

lemma digit_value_lower:
  assumes "k < 16" and "lower_char c = hex_digit k"
  shows "digit_value c = Some k"
proof (cases "65 \<le> (of_char c :: nat) \<and> (of_char c :: nat) \<le> 90")
  case True
  then have "lower_char c = char_of (of_char c + 32 :: nat)"
    by (simp add: lower_char_def Let_def)
  then have "(of_char (hex_digit k) :: nat) = (of_char c + 32) mod 256"
    using assms(2) by (metis of_char_of)
  then have "(of_char (hex_digit k) :: nat) = of_char c + 32"
    using True by simp
  then show ?thesis
    using True assms(1) by (auto simp: of_char_hex_digit digit_value_def Let_def split: if_splits)
next
  case False
  then have "lower_char c = c" by (auto simp: lower_char_def Let_def)
  with assms have "c = hex_digit k" by simp
  then show ?thesis using assms(1) by (simp add: digit_value_hex_digit)
qed

lemma hex_digit_not_x: "k < 16 \<Longrightarrow> hex_digit k \<noteq> CHR ''x''"
  using of_char_hex_digit[of k] by (auto split: if_splits)

lemma decode_recased:
  "map lower_char s = to_hex bs \<Longrightarrow> decode_pairs s = Inr bs"
proof (induction bs arbitrary: s)
  case Nil
  then show ?case by (simp add: to_hex_def)
next
  case (Cons b bs)
  then obtain h l rest where s: "s = h # l # rest"
    and h: "lower_char h = hex_digit (unat b div 16)"
    and l: "lower_char l = hex_digit (unat b mod 16)"
    and rest: "map lower_char rest = to_hex bs"
    by (auto simp: to_hex_def map_eq_Cons_conv)
  have "digit_value h = Some (unat b div 16)" "digit_value l = Some (unat b mod 16)"
    using h l by (simp_all add: digit_value_lower unat_byte_div)
  then show ?case
    using s Cons.IH[OF rest] by (simp add: byte_split)
qed

text \<open>Such a string does not start with the prefix: its second character is a digit.\<close>

lemma strip_recased:
  assumes "map lower_char s = to_hex bs"
  shows "strip_0x s = s"
proof (cases s)
  case Nil
  then show ?thesis by (simp add: strip_0x_def)
next
  case (Cons h t)
  show ?thesis
  proof (cases t)
    case Nil
    with Cons show ?thesis by (simp add: strip_0x_def)
  next
    case (Cons l rest)
    with \<open>s = h # t\<close> assms obtain b bs' where "bs = b # bs'"
      by (cases bs) (auto simp: to_hex_def)
    with Cons \<open>s = h # t\<close> assms have "lower_char l = hex_digit (unat b mod 16)"
      by (simp add: to_hex_def)
    then have "l \<noteq> CHR ''x''"
      using hex_digit_not_x[of "unat b mod 16"] by (auto simp: lower_char_def Let_def)
    with Cons \<open>s = h # t\<close> show ?thesis by (simp add: strip_0x_def)
  qed
qed

lemma decode_even: "decode_pairs s = Inr bs \<Longrightarrow> length s = 2 * length bs"
  by (induction s arbitrary: bs rule: decode_pairs.induct)
     (auto split: option.splits sum.splits)

lemma decode_digits: "decode_pairs s = Inr bs \<Longrightarrow> c \<in> set s \<Longrightarrow> digit_value c \<noteq> None"
  by (induction s arbitrary: bs rule: decode_pairs.induct)
     (auto split: option.splits sum.splits)

text \<open>
  Claim C7. For every byte sequence \<open>b\<close>, \<open>to_hex b\<close> has an even number of digits,
  and \<open>from_hex\<close> gives \<open>b\<close> back from it, with or without the prefix \<open>0x\<close>, and from
  every string \<open>s\<close> that differs from it in letter case only. \<open>from_hex\<close> rejects
  every string \<open>t\<close> whose digits (what follows the optional prefix) are odd in number
  or hold a character that is not a hex digit.
\<close>

theorem hex_round_trip:
  "even (length (to_hex b))
   \<and> from_hex (to_hex b) = Inr b
   \<and> from_hex (''0x'' @ to_hex b) = Inr b
   \<and> (\<forall>s. map lower_char s = to_hex b \<longrightarrow>
         from_hex s = Inr b \<and> from_hex (''0x'' @ s) = Inr b)
   \<and> (odd (length (strip_0x t)) \<longrightarrow> from_hex t = Inl FmtError)
   \<and> ((\<exists>c \<in> set (strip_0x t). digit_value c = None) \<longrightarrow> from_hex t = Inl FmtError)"
proof -
  have "lower_char (hex_digit k) = hex_digit k" if "k < 16" for k
    using that of_char_hex_digit[of k] by (simp add: lower_char_def Let_def)
  then have lower_id: "map lower_char (to_hex b) = to_hex b"
    by (induction b) (simp_all add: to_hex_def unat_byte_div)
  have rc: "from_hex s = Inr b \<and> from_hex (''0x'' @ s) = Inr b"
    if "map lower_char s = to_hex b" for s
  proof -
    have "strip_0x s = s" "strip_0x (''0x'' @ s) = s"
      using that by (simp_all add: strip_recased) (simp add: strip_0x_def)
    then show ?thesis
      using that by (simp add: from_hex_def decode_recased)
  qed
  have odd: "from_hex t = Inl FmtError" if "odd (length (strip_0x t))"
  proof (cases "from_hex t")
    case (Inr bs)
    then show ?thesis using that decode_even[of "strip_0x t" bs] by (simp add: from_hex_def)
  next
    case (Inl e)
    then show ?thesis by (cases e) simp
  qed
  have bad: "from_hex t = Inl FmtError" if "\<exists>c \<in> set (strip_0x t). digit_value c = None"
  proof (cases "from_hex t")
    case (Inr bs)
    then show ?thesis using that decode_digits[of "strip_0x t" bs] by (auto simp: from_hex_def)
  next
    case (Inl e)
    then show ?thesis by (cases e) simp
  qed
  show ?thesis
    using rc[OF lower_id] rc odd bad by (simp add: length_to_hex)
qed

theorem hex_round_trip_witness:
  "to_hex [0x15, 0xd2, 0xc8] = ''15d2c8''
   \<and> map lower_char ''15D2c8'' = to_hex [0x15, 0xd2, 0xc8]
   \<and> from_hex ''15D2c8'' = Inr [0x15, 0xd2, 0xc8]
   \<and> from_hex ''0x15D2c8'' = Inr [0x15, 0xd2, 0xc8]
   \<and> odd (length (strip_0x ''0x15d'')) \<and> from_hex ''0x15d'' = Inl FmtError
   \<and> digit_value CHR ''g'' = None \<and> from_hex ''15g2'' = Inl FmtError"
proof -
  have v: "to_hex [0x15, 0xd2, 0xc8] = ''15d2c8''"
    by (simp add: to_hex_def hex_digit_def)
  have "map lower_char ''15D2c8'' = ''15d2c8''"
    by code_simp
  with v have l: "map lower_char ''15D2c8'' = to_hex [0x15, 0xd2, 0xc8]"
    by simp
  have o: "odd (length (strip_0x ''0x15d''))"
    by (simp add: strip_0x_def)
  have g: "digit_value CHR ''g'' = None"
    by (simp add: digit_value_def)
  then have n: "\<exists>c \<in> set (strip_0x ''15g2''). digit_value c = None"
    by (simp add: strip_0x_def)
  from hex_round_trip [of "[0x15, 0xd2, 0xc8]" "''0x15d''"] l o
  have "from_hex ''15D2c8'' = Inr [0x15, 0xd2, 0xc8]"
    "from_hex (''0x'' @ ''15D2c8'') = Inr [0x15, 0xd2, 0xc8]"
    "from_hex ''0x15d'' = Inl FmtError"
    by blast+
  moreover from hex_round_trip [of "[0x15, 0xd2, 0xc8]" "''15g2''"] n
  have "from_hex ''15g2'' = Inl FmtError"
    by blast
  ultimately show ?thesis
    using v l o g by simp
qed

section \<open>Properties of the public-input evaluator\<close>

lemma pi_sum_reduced: "pi_sum n \<omega> \<zeta> i xs < FIELD_MODULUS"
  by (cases xs) (simp_all add: fadd_def FIELD_MODULUS_def)

text \<open>At the first point of the domain the evaluator returns the first input.\<close>

lemma public_input_eval_at_one:
  "public_input_eval n \<omega> 1 [x] = x mod FIELD_MODULUS"
  by (simp add: public_input_eval_def lagrange_def fsub_def fpow_def fadd_def fmul_def
      FIELD_MODULUS_def)

text \<open>
  Claim C6. For every domain size \<open>n\<close> (and every root \<open>\<omega>\<close>), the public-input
  evaluator applied to the empty sequence of public inputs returns the field element 0
  at every challenge \<open>\<zeta>\<close>; and whatever the inputs, its result is a reduced element
  of the scalar field.
\<close>

theorem public_input_eval_empty:
  "public_input_eval n \<omega> \<zeta> [] = 0 \<and> public_input_eval n \<omega> \<zeta> inputs < FIELD_MODULUS"
  by (simp add: public_input_eval_def pi_sum_reduced)

end
